theory Spec2Isabelle
  imports Main
begin

section \<open>Python values, exceptions and strings\<close>

text \<open>
  The messages the module raises, before translation by \<^verbatim>\<open>flask_babel\<close>; a message
  with a \<^verbatim>\<open>%(...)s\<close> placeholder carries the value substituted for it.
\<close>

datatype message =
    Not_a_valid_amount
  | Project_already_exists string
  | Bills_cant_be_null
  | User_name_incorrect
  | Project_already_has_member
  | Email_not_valid string
  | Evaluator_message string

text \<open>
  Exceptions are values. \<^verbatim>\<open>ValidationError\<close> (of wtforms) and \<^verbatim>\<open>ValueError\<close> and
  \<^verbatim>\<open>AttributeError\<close> derive from \<^verbatim>\<open>Exception\<close>; \<^verbatim>\<open>KeyboardInterrupt\<close> derives from
  \<^verbatim>\<open>BaseException\<close> only, so that \<^verbatim>\<open>except Exception\<close> lets it through.
\<close>

datatype exn =
    ValueError message
  | ValidationError message
  | AttributeError
  | KeyboardInterrupt

fun is_Exception :: "exn \<Rightarrow> bool" where
  "is_Exception KeyboardInterrupt = False"
| "is_Exception _ = True"

text \<open>
  The forms of \<^verbatim>\<open>ihatemoney/forms.py\<close> read and write the \<^verbatim>\<open>data\<close> attribute of
  their fields. A field's data is a Python value: \<^verbatim>\<open>None\<close>, a \<^verbatim>\<open>bool\<close>, an \<^verbatim>\<open>int\<close>, a
  \<^verbatim>\<open>str\<close>, or an object of some other class, identified by its address. Such a class
  either has no \<^verbatim>\<open>strip\<close> method (\<open>PyObj\<close>) or defines one of its own
  (\<open>PyStrippable\<close>); an object of the second kind carries what a call of its
  \<^verbatim>\<open>strip()\<close> does: the value it returns or the exception it raises. Both kinds have
  the default, identity-based \<^verbatim>\<open>==\<close>.
  A \<^verbatim>\<open>str\<close> is modelled as a \<open>string\<close>: one \<open>char\<close> per code point, for the code
  points below 256.
\<close>

datatype pyval =
    PyNone
  | PyBool bool
  | PyInt int
  | PyStr string
  | PyObj nat
  | PyStrippable nat "exn + pyval"

text \<open>
  Python's \<^verbatim>\<open>a == b\<close> on these values: \<^verbatim>\<open>bool\<close> is a subclass of \<^verbatim>\<open>int\<close> and compares
  as \<^verbatim>\<open>0\<close> or \<^verbatim>\<open>1\<close>; a number never equals a \<^verbatim>\<open>str\<close>, \<^verbatim>\<open>None\<close> or another object;
  two \<^verbatim>\<open>str\<close> are equal when their characters are; other objects are equal when they are
  the same object.
\<close>

fun num_of :: "pyval \<Rightarrow> int option" where
  "num_of (PyBool b) = Some (if b then 1 else 0)"
| "num_of (PyInt i) = Some i"
| "num_of _ = None"

definition py_eq :: "pyval \<Rightarrow> pyval \<Rightarrow> bool" where
  "py_eq a b =
     (case (num_of a, num_of b) of
        (Some x, Some y) \<Rightarrow> x = y
      | (None, None) \<Rightarrow> a = b
      | _ \<Rightarrow> False)"

text \<open>
  \<^verbatim>\<open>str.strip()\<close> removes the leading and the trailing whitespace. Below code point 256
  Python's whitespace is U+0009 to U+000D, U+001C to U+0020, U+0085 and U+00A0.
\<close>

definition is_space :: "char \<Rightarrow> bool" where
  "is_space c =
     (let n = (of_char c :: nat)
      in (9 \<le> n \<and> n \<le> 13) \<or> (28 \<le> n \<and> n \<le> 32) \<or> n = 133 \<or> n = 160)"

definition py_strip :: "string \<Rightarrow> string" where
  "py_strip s = rev (dropWhile is_space (rev (dropWhile is_space s)))"

text \<open>Python's \<^verbatim>\<open>str\<close> on an \<^verbatim>\<open>int\<close>: its decimal digits, after a minus sign when negative.\<close>

fun str_nat :: "nat \<Rightarrow> string" where
  "str_nat n =
     (if n < 10 then [char_of (48 + n)]
      else str_nat (n div 10) @ [char_of (48 + n mod 10)])"

definition str_int :: "int \<Rightarrow> string" where
  "str_int i = (if i < 0 then CHR ''-'' # str_nat (nat (- i)) else str_nat (nat i))"

text \<open>\<^verbatim>\<open>s.replace(",", ".")\<close>.\<close>

definition replace_comma :: "string \<Rightarrow> string" where
  "replace_comma s = map (\<lambda>c. if c = CHR '','' then CHR ''.'' else c) s"

text \<open>\<^verbatim>\<open>s.split(",")\<close>: the pieces between the commas, one more than there are commas.\<close>

fun split_comma :: "string \<Rightarrow> string list" where
  "split_comma [] = [[]]"
| "split_comma (c # cs) =
     (if c = CHR '','' then [] # split_comma cs
      else (case split_comma cs of
              [] \<Rightarrow> [[c]]
            | w # ws \<Rightarrow> (c # w) # ws))"

text \<open>\<^verbatim>\<open>"**" in value\<close>.\<close>

fun has_double_star :: "string \<Rightarrow> bool" where
  "has_double_star (a # b # cs) =
     ((a = CHR ''*'' \<and> b = CHR ''*'') \<or> has_double_star (b # cs))"
| "has_double_star _ = False"

text \<open>
  The character class \<^verbatim>\<open>[ 0-9\.\+\-\*/\(\)]\<close> of the amount pattern: the space, the ASCII
  digits, and the characters \<^verbatim>\<open>. + - * / ( )\<close>.
\<close>

definition is_digit :: "char \<Rightarrow> bool" where
  "is_digit c = (48 \<le> (of_char c :: nat) \<and> (of_char c :: nat) \<le> 57)"

definition amount_char :: "char \<Rightarrow> bool" where
  "amount_char c =
     (c = CHR '' '' \<or> is_digit c \<or> c = CHR ''.'' \<or> c = CHR ''+'' \<or> c = CHR ''-'' \<or>
      c = CHR ''*'' \<or> c = CHR ''/'' \<or> c = CHR ''('' \<or> c = CHR '')'')"

text \<open>
  \<^verbatim>\<open>match(r"^[ 0-9\.\+\-\*/\(\)]{0,200}$", value)\<close>. The pattern is anchored at the start,
  takes at most 200 characters of the class, and then needs \<^verbatim>\<open>$\<close>. Without the
  \<^verbatim>\<open>MULTILINE\<close> flag Python's \<^verbatim>\<open>$\<close> holds at the end of the string and also just before
  a newline that is the last character of the string. A newline is not in the class, so
  the pattern matches exactly when the string, without one final newline if it has one,
  is at most 200 characters of the class.
\<close>

definition match_amount_pattern :: "string \<Rightarrow> bool" where
  "match_amount_pattern value =
     (let body = (if value \<noteq> [] \<and> last value = CHR 0x0A then butlast value else value)
      in length body \<le> 200 \<and> list_all amount_char body)"

section \<open>Field types\<close>

text \<open>
  \<^verbatim>\<open>StringField.process_formdata\<close> of wtforms 2, the base class of
  \<^verbatim>\<open>CalculatorStringField\<close>: the first submitted value becomes the data as it is (a
  \<^verbatim>\<open>str\<close>); with no submitted value, data that is \<^verbatim>\<open>None\<close> becomes the empty string.
\<close>

definition StringField_process_formdata :: "string list \<Rightarrow> pyval \<Rightarrow> pyval" where
  "StringField_process_formdata valuelist data =
     (case valuelist of
        v # _ \<Rightarrow> PyStr v
      | [] \<Rightarrow> (if data = PyNone then PyStr [] else data))"

text \<open>
  \<^verbatim>\<open>CommaDecimalField.process_formdata\<close>. The base class \<^verbatim>\<open>DecimalField\<close> belongs to
  wtforms; its \<^verbatim>\<open>process_formdata\<close> is the parameter \<open>super\<close>. The list is updated in
  place, so the result holds the list after the call beside what the base class did.
\<close>

definition CommaDecimalField_process_formdata ::
  "(string list \<Rightarrow> 'r) \<Rightarrow> string list \<Rightarrow> string list \<times> 'r" where
  "CommaDecimalField_process_formdata super value =
     (case value of
        [] \<Rightarrow> ([], super [])
      | v # vs \<Rightarrow> (let value' = replace_comma v # vs in (value', super value')))"

text \<open>
  \<^verbatim>\<open>CalculatorStringField.process_formdata\<close>. \<^verbatim>\<open>eval_arithmetic_expression\<close> lives in
  \<^verbatim>\<open>ihatemoney/utils.py\<close> and is the parameter \<open>eval_expr\<close>: it returns a number or
  raises. \<open>str_of\<close> is Python's \<^verbatim>\<open>str\<close> on such a number. A raised exception leaves the
  list and the data as they were; otherwise the result is the list after the call and the
  new data.
\<close>

definition CalculatorStringField_process_formdata ::
  "(string \<Rightarrow> exn + 'n) \<Rightarrow> ('n \<Rightarrow> string) \<Rightarrow> string list \<Rightarrow> pyval \<Rightarrow>
     exn + (string list \<times> pyval)" where
  "CalculatorStringField_process_formdata eval_expr str_of valuelist data =
     (case valuelist of
        [] \<Rightarrow> Inr ([], StringField_process_formdata [] data)
      | v # vs \<Rightarrow>
          (let value = replace_comma v in
           if \<not> match_amount_pattern value \<or> has_double_star value
           then Inl (ValueError Not_a_valid_amount)
           else (case eval_expr value of
                   Inl e \<Rightarrow> Inl e
                 | Inr n \<Rightarrow>
                     (let valuelist' = str_of n # vs
                      in Inr (valuelist', StringField_process_formdata valuelist' data)))))"

text \<open>
  \<^verbatim>\<open>strip_filter\<close>. The method call \<^verbatim>\<open>string.strip()\<close> comes first: a \<^verbatim>\<open>str\<close> returns
  its stripped copy; an object with a \<^verbatim>\<open>strip\<close> method of its own returns or raises
  what that method returns or raises; on everything else the attribute lookup raises
  \<^verbatim>\<open>AttributeError\<close>. The handler \<^verbatim>\<open>except Exception\<close> catches the exceptions derived
  from \<^verbatim>\<open>Exception\<close> and lets the others through.
\<close>

fun call_strip :: "pyval \<Rightarrow> exn + pyval" where
  "call_strip (PyStr s) = Inr (PyStr (py_strip s))"
| "call_strip (PyStrippable a outcome) = outcome"
| "call_strip _ = Inl AttributeError"

definition strip_filter :: "pyval \<Rightarrow> exn + pyval" where
  "strip_filter string =
     (case call_strip string of
        Inr r \<Rightarrow> Inr r
      | Inl e \<Rightarrow> (if is_Exception e then Inr string else Inl e))"

text \<open>
  The filters of a field run in order on its data, each on the result of the one before
  (\<^verbatim>\<open>for filter in self.filters: self.data = filter(self.data)\<close>); \<^verbatim>\<open>MemberForm.name\<close>
  has \<^verbatim>\<open>filters=[strip_filter]\<close>.
\<close>

fun run_filters :: "(pyval \<Rightarrow> exn + pyval) list \<Rightarrow> pyval \<Rightarrow> exn + pyval" where
  "run_filters [] data = Inr data"
| "run_filters (f # fs) data =
     (case f data of Inl e \<Rightarrow> Inl e | Inr data' \<Rightarrow> run_filters fs data')"

definition MemberForm_name_filters :: "(pyval \<Rightarrow> exn + pyval) list" where
  "MemberForm_name_filters = [strip_filter]"

section \<open>Projects\<close>

datatype LoggingMode = DISABLED | ENABLED | RECORD_IP

record Project =
  project_id :: string
  project_name :: string
  project_password :: string
  project_contact_email :: string
  project_logging_preference :: LoggingMode
  project_default_currency :: string

record EditProjectForm =
  name_data :: string
  password_data :: string
  contact_email_data :: string
  project_history_data :: bool
  ip_recording_data :: bool
  default_currency_data :: string

record ProjectForm = EditProjectForm +
  id_data :: string

text \<open>The property \<^verbatim>\<open>EditProjectForm.logging_preference\<close>.\<close>

definition logging_preference :: "'a EditProjectForm_scheme \<Rightarrow> LoggingMode" where
  "logging_preference self =
     (if \<not> project_history_data self then DISABLED
      else if ip_recording_data self then RECORD_IP
      else ENABLED)"

text \<open>
  \<^verbatim>\<open>EditProjectForm.save\<close> reads \<^verbatim>\<open>self.id\<close>, a field of the subclass \<^verbatim>\<open>ProjectForm\<close>.
  \<open>generate_password_hash\<close> is werkzeug's, with the salt it draws for this call.
\<close>

definition EditProjectForm_save :: "(string \<Rightarrow> string) \<Rightarrow> 'a ProjectForm_scheme \<Rightarrow> Project" where
  "EditProjectForm_save generate_password_hash self =
     \<lparr> project_id = id_data self,
       project_name = name_data self,
       project_password = generate_password_hash (password_data self),
       project_contact_email = contact_email_data self,
       project_logging_preference = logging_preference self,
       project_default_currency = default_currency_data self \<rparr>"

text \<open>
  \<^verbatim>\<open>EditProjectForm.update\<close>. \<open>check_password_hash\<close> and \<open>generate_password_hash\<close> are
  werkzeug's. \<^verbatim>\<open>Project.switch_currency\<close> lives in \<^verbatim>\<open>ihatemoney/models.py\<close> and is the
  parameter \<open>switch_currency\<close>: it updates the project in place and may raise, so it
  returns the project after the call and the exception, if any. The assignments before
  it are made when it raises, too.
\<close>

definition EditProjectForm_update ::
  "(string \<Rightarrow> string \<Rightarrow> bool) \<Rightarrow> (string \<Rightarrow> string) \<Rightarrow>
   (string \<Rightarrow> Project \<Rightarrow> Project \<times> exn option) \<Rightarrow>
   'a EditProjectForm_scheme \<Rightarrow> Project \<Rightarrow> Project \<times> exn option" where
  "EditProjectForm_update check_password_hash generate_password_hash switch_currency self project =
     (let p1 = project\<lparr>project_name := name_data self\<rparr>;
          p2 = (if \<not> check_password_hash (project_password p1) (password_data self)
                then p1\<lparr>project_password := generate_password_hash (password_data self)\<rparr>
                else p1);
          p3 = p2\<lparr>project_contact_email := contact_email_data self\<rparr>;
          p4 = p3\<lparr>project_logging_preference := logging_preference self\<rparr>
      in switch_currency (default_currency_data self) p4)"

text \<open>
  \<^verbatim>\<open>ProjectForm.save\<close>. \<^verbatim>\<open>LoggingMode.default()\<close> lives in \<^verbatim>\<open>ihatemoney/models.py\<close> and
  is the parameter \<open>default_mode\<close>. The two toggles of the form are overwritten before the
  project is built; the result is the form after the call and the project.
\<close>

definition ProjectForm_save ::
  "LoggingMode \<Rightarrow> (string \<Rightarrow> string) \<Rightarrow> ProjectForm \<Rightarrow> ProjectForm \<times> Project" where
  "ProjectForm_save default_mode generate_password_hash self =
     (let s1 = self\<lparr>project_history_data := (default_mode \<noteq> DISABLED)\<rparr>;
          s2 = s1\<lparr>ip_recording_data := (default_mode = RECORD_IP)\<rparr>
      in (s2, EditProjectForm_save generate_password_hash s2))"

text \<open>
  \<^verbatim>\<open>Project.query.get(i)\<close>: the project whose primary key \<^verbatim>\<open>id\<close> is \<open>i\<close>, or \<^verbatim>\<open>None\<close>.
  The store is the list of the projects it holds.
\<close>

definition Project_query_get :: "Project list \<Rightarrow> string \<Rightarrow> Project option" where
  "Project_query_get projects i = find (\<lambda>p. project_id p = i) projects"

text \<open>
  \<^verbatim>\<open>ProjectForm.validate_id\<close>, called by wtforms with \<^verbatim>\<open>field = form.id\<close>. \<^verbatim>\<open>slugify\<close>
  lives in \<^verbatim>\<open>ihatemoney/utils.py\<close> and is a parameter. The slug is stored in the form
  before the test, so the result is the form after the call and the outcome.
\<close>

definition ProjectForm_validate_id ::
  "(string \<Rightarrow> string) \<Rightarrow> Project list \<Rightarrow> ProjectForm \<Rightarrow> ProjectForm \<times> (exn + unit)" where
  "ProjectForm_validate_id slugify projects form =
     (let form' = form\<lparr>id_data := slugify (id_data form)\<rparr>
      in if id_data form' = ''dashboard'' \<or> Project_query_get projects (id_data form') \<noteq> None
         then (form', Inl (ValidationError (Project_already_exists (id_data form'))))
         else (form', Inr ()))"

section \<open>Bills\<close>

text \<open>\<^verbatim>\<open>BillForm.validate_amount\<close>, on the data of the amount field.\<close>

definition BillForm_validate_amount :: "pyval \<Rightarrow> exn + unit" where
  "BillForm_validate_amount data =
     (if py_eq data (PyInt 0) then Inl (ValidationError Bills_cant_be_null) else Inr ())"

section \<open>Members\<close>

record Person =
  person_name :: string
  person_project :: string
  person_activated :: bool

text \<open>
  A \<^verbatim>\<open>MemberForm\<close>: the data of its name field, the project it was built for (by its
  id) and the \<^verbatim>\<open>edit\<close> flag. The name field is declared without \<^verbatim>\<open>default\<close>, and the
  default of a wtforms field is then \<^verbatim>\<open>None\<close>.
\<close>

record MemberForm =
  member_name_data :: pyval
  member_project :: string
  edit :: bool

definition MemberForm_name_default :: pyval where
  "MemberForm_name_default = PyNone"

text \<open>
  The query of \<^verbatim>\<open>validate_name\<close>: the persons with the given name, in the given project,
  that are activated.
\<close>

definition Person_query_filter :: "Person list \<Rightarrow> pyval \<Rightarrow> string \<Rightarrow> Person list" where
  "Person_query_filter persons name project =
     filter (\<lambda>p. PyStr (person_name p) = name \<and> person_project p = project \<and>
                 person_activated p = True) persons"

definition MemberForm_validate_name :: "Person list \<Rightarrow> MemberForm \<Rightarrow> exn + unit" where
  "MemberForm_validate_name persons form =
     (if py_eq (member_name_data form) MemberForm_name_default
      then Inl (ValidationError User_name_incorrect)
      else if \<not> edit form \<and>
              Person_query_filter persons (member_name_data form) (member_project form) \<noteq> []
      then Inl (ValidationError Project_already_has_member)
      else Inr ())"

section \<open>Invitations\<close>

text \<open>
  \<^verbatim>\<open>InviteForm.validate_emails\<close>. \<^verbatim>\<open>email_validator.validate_email\<close> is a library
  function and the parameter \<open>valid\<close>: it raises \<^verbatim>\<open>EmailNotValidError\<close> exactly on the
  addresses that are not \<open>valid\<close>. The loop stops at the first address that raises.
\<close>

fun validate_each :: "(string \<Rightarrow> bool) \<Rightarrow> string list \<Rightarrow> exn + unit" where
  "validate_each valid [] = Inr ()"
| "validate_each valid (email # emails) =
     (if valid email then validate_each valid emails
      else Inl (ValidationError (Email_not_valid email)))"

definition InviteForm_validate_emails :: "(string \<Rightarrow> bool) \<Rightarrow> string \<Rightarrow> exn + unit" where
  "InviteForm_validate_emails valid emails_data =
     validate_each valid (map py_strip (split_comma emails_data))"

section \<open>Auxiliary facts\<close>

declare str_nat.simps [simp del]

lemma py_eq_str_int [simp]: "py_eq (PyStr s) (PyInt i) = False"
  by (simp add: py_eq_def)

lemma rev_dropWhile_takeWhile:
  "xs = rev (dropWhile P (rev xs)) @ rev (takeWhile P (rev xs))"
proof -
  have "rev (takeWhile P (rev xs) @ dropWhile P (rev xs)) = xs"
    by (simp only: takeWhile_dropWhile_id rev_rev_ident)
  then show ?thesis by (simp only: rev_append)
qed

lemma list_all_takeWhile: "list_all P (takeWhile P xs)"
  by (induction xs) auto

lemma py_strip_decomp:
  "\<exists>pre post. s = pre @ py_strip s @ post \<and> list_all is_space pre \<and> list_all is_space post"
proof -
  let ?t = "dropWhile is_space s"
  have 1: "s = takeWhile is_space s @ ?t" by simp
  have 2: "?t = py_strip s @ rev (takeWhile is_space (rev ?t))"
    unfolding py_strip_def by (rule rev_dropWhile_takeWhile)
  have "s = takeWhile is_space s @ py_strip s @ rev (takeWhile is_space (rev ?t))"
    using 1 2 by metis
  moreover have "list_all is_space (takeWhile is_space s)"
    by (rule list_all_takeWhile)
  moreover have "list_all is_space (rev (takeWhile is_space (rev ?t)))"
    by (simp add: list_all_takeWhile)
  ultimately show ?thesis by blast
qed

lemma py_strip_ends:
  assumes "py_strip s \<noteq> []"
  shows "\<not> is_space (hd (py_strip s)) \<and> \<not> is_space (last (py_strip s))"
proof -
  let ?t = "dropWhile is_space s"
  let ?u = "dropWhile is_space (rev ?t)"
  have u: "?u \<noteq> []" using assms by (simp add: py_strip_def)
  then have l: "\<not> is_space (hd ?u)" by (rule hd_dropWhile)
  have "last (py_strip s) = hd ?u" using u by (simp add: py_strip_def last_rev)
  with l have A: "\<not> is_space (last (py_strip s))" by simp
  have "?t = [] \<Longrightarrow> ?u = []" by (simp only: rev.simps dropWhile.simps)
  with u have t: "?t \<noteq> []" by blast
  then have ht: "\<not> is_space (hd ?t)" by (rule hd_dropWhile)
  have "?t = py_strip s @ rev (takeWhile is_space (rev ?t))"
    unfolding py_strip_def by (rule rev_dropWhile_takeWhile)
  then have "hd ?t = hd (py_strip s)" using assms by (metis hd_append2)
  with ht have "\<not> is_space (hd (py_strip s))" by simp
  with A show ?thesis by simp
qed

section \<open>Properties of the forms\<close>

subsection \<open>The strip filter\<close>

text \<open>
  C9, as stated, fails. \<^verbatim>\<open>except Exception\<close> does not catch an exception that derives
  from \<^verbatim>\<open>BaseException\<close> only: given an object whose \<^verbatim>\<open>strip()\<close> raises
  \<^verbatim>\<open>KeyboardInterrupt\<close>, \<^verbatim>\<open>strip_filter\<close> raises it too, and so do the filters of the
  member-name field. So \<^verbatim>\<open>strip_filter\<close> does not return on every value.
\<close>

theorem strip_filter_raises_counterexample:
  "strip_filter (PyStrippable 0 (Inl KeyboardInterrupt)) = Inl KeyboardInterrupt \<and>
   run_filters MemberForm_name_filters (PyStrippable 0 (Inl KeyboardInterrupt))
     = Inl KeyboardInterrupt \<and>
   \<not> (\<forall>v. \<exists>r. strip_filter v = Inr r)"
proof -
  have r: "strip_filter (PyStrippable 0 (Inl KeyboardInterrupt)) = Inl KeyboardInterrupt"
    by (simp add: strip_filter_def)
  then have f: "run_filters MemberForm_name_filters (PyStrippable 0 (Inl KeyboardInterrupt))
                  = Inl KeyboardInterrupt"
    by (simp add: MemberForm_name_filters_def)
  have "\<not> (\<forall>v. \<exists>r. strip_filter v = Inr r)"
  proof
    assume "\<forall>v. \<exists>r. strip_filter v = Inr r"
    then have "\<exists>r. strip_filter (PyStrippable 0 (Inl KeyboardInterrupt)) = Inr r" by (rule spec)
    with r show False by simp
  qed
  with r f show ?thesis by simp
qed

text \<open>
  C9, amended. \<^verbatim>\<open>strip_filter\<close> raises exactly when the value has a \<^verbatim>\<open>strip\<close> method of
  its own that raises an exception not derived from \<^verbatim>\<open>Exception\<close>, and it raises that
  exception. In every other case it returns: on a \<^verbatim>\<open>str\<close> the stripped string; on an
  object whose \<^verbatim>\<open>strip()\<close> returns, what it returns; on an object whose \<^verbatim>\<open>strip()\<close>
  raises an exception derived from \<^verbatim>\<open>Exception\<close>, the object unchanged; on a value
  without a \<^verbatim>\<open>strip\<close> method (\<^verbatim>\<open>None\<close> among them), the value unchanged. On the data
  of the member-name field, a \<^verbatim>\<open>str\<close> or \<^verbatim>\<open>None\<close>, the filters of the field always
  return. The stripped string is the input without a run of whitespace at each end, and
  neither starts nor ends with whitespace.
\<close>

theorem strip_filter_cases:
  "strip_filter (PyStr s) = Inr (PyStr (py_strip s)) \<and>
   strip_filter (PyStrippable a (Inr r)) = Inr r \<and>
   (is_Exception e
      \<longrightarrow> strip_filter (PyStrippable a (Inl e)) = Inr (PyStrippable a (Inl e))) \<and>
   (\<not> is_Exception e \<longrightarrow> strip_filter (PyStrippable a (Inl e)) = Inl e) \<and>
   ((\<forall>t. v \<noteq> PyStr t) \<and> (\<forall>b outcome. v \<noteq> PyStrippable b outcome)
      \<longrightarrow> strip_filter v = Inr v) \<and>
   strip_filter PyNone = Inr PyNone \<and>
   ((\<exists>x. strip_filter v = Inl x)
      = (\<exists>b x. v = PyStrippable b (Inl x) \<and> \<not> is_Exception x)) \<and>
   (strip_filter v = Inl x \<longrightarrow> call_strip v = Inl x \<and> \<not> is_Exception x) \<and>
   run_filters MemberForm_name_filters (PyStr s) = Inr (PyStr (py_strip s)) \<and>
   run_filters MemberForm_name_filters PyNone = Inr PyNone \<and>
   (\<exists>pre post. s = pre @ py_strip s @ post \<and> list_all is_space pre \<and> list_all is_space post) \<and>
   (py_strip s \<noteq> [] \<longrightarrow> \<not> is_space (hd (py_strip s)) \<and> \<not> is_space (last (py_strip s)))"
proof -
  have str: "strip_filter (PyStr s) = Inr (PyStr (py_strip s))"
    by (simp add: strip_filter_def)
  have ret: "strip_filter (PyStrippable a (Inr r)) = Inr r"
    by (simp add: strip_filter_def)
  have caught: "is_Exception e
      \<longrightarrow> strip_filter (PyStrippable a (Inl e)) = Inr (PyStrippable a (Inl e))"
    by (simp add: strip_filter_def)
  have through: "\<not> is_Exception e \<longrightarrow> strip_filter (PyStrippable a (Inl e)) = Inl e"
    by (simp add: strip_filter_def)
  have other: "(\<forall>t. v \<noteq> PyStr t) \<and> (\<forall>b outcome. v \<noteq> PyStrippable b outcome)
      \<longrightarrow> strip_filter v = Inr v"
    by (cases v) (simp_all add: strip_filter_def)
  have none: "strip_filter PyNone = Inr PyNone"
    by (simp add: strip_filter_def)
  have raises: "(\<exists>x. strip_filter v = Inl x)
      = (\<exists>b x. v = PyStrippable b (Inl x) \<and> \<not> is_Exception x)"
    by (cases v) (auto simp: strip_filter_def split: sum.splits if_splits)
  have which: "strip_filter v = Inl x \<longrightarrow> call_strip v = Inl x \<and> \<not> is_Exception x"
    by (auto simp: strip_filter_def split: sum.splits if_splits)
  have f1: "run_filters MemberForm_name_filters (PyStr s) = Inr (PyStr (py_strip s))"
    using str by (simp add: MemberForm_name_filters_def)
  have f2: "run_filters MemberForm_name_filters PyNone = Inr PyNone"
    using none by (simp add: MemberForm_name_filters_def)
  have d: "\<exists>pre post. s = pre @ py_strip s @ post \<and> list_all is_space pre \<and>
             list_all is_space post"
    by (rule py_strip_decomp)
  have e: "py_strip s \<noteq> [] \<longrightarrow>
             \<not> is_space (hd (py_strip s)) \<and> \<not> is_space (last (py_strip s))"
    using py_strip_ends [of s] by blast
  from str ret caught through other none raises which f1 f2 d e show ?thesis
    by (intro conjI)
qed

text \<open>
  Instances: a padded name is trimmed, by the function and by the filters of the name
  field; a number comes back as it is; an object whose \<^verbatim>\<open>strip()\<close> returns a string gives
  that string; an object whose \<^verbatim>\<open>strip()\<close> raises \<^verbatim>\<open>AttributeError\<close> comes back as it is.
\<close>

theorem strip_filter_cases_witness:
  "strip_filter (PyStr ''  Alice Doe '') = Inr (PyStr ''Alice Doe'') \<and>
   run_filters MemberForm_name_filters (PyStr ''  Alice Doe '') = Inr (PyStr ''Alice Doe'') \<and>
   strip_filter (PyInt 7) = Inr (PyInt 7) \<and>
   strip_filter (PyStrippable 1 (Inr (PyStr ''Bob''))) = Inr (PyStr ''Bob'') \<and>
   strip_filter (PyStrippable 2 (Inl AttributeError)) = Inr (PyStrippable 2 (Inl AttributeError))"
proof -
  have s: "py_strip ''  Alice Doe '' = ''Alice Doe''"
    by (simp add: py_strip_def is_space_def)
  have n: "(\<forall>t. PyInt 7 \<noteq> PyStr t) \<and> (\<forall>b outcome. PyInt 7 \<noteq> PyStrippable b outcome)"
    by simp
  have x: "is_Exception AttributeError" by simp
  note t1 = strip_filter_cases
              [where s = "''  Alice Doe ''" and v = "PyInt 7" and a = 1 and r = "PyStr ''Bob''"]
  note t2 = strip_filter_cases [where a = 2 and e = AttributeError]
  from t1 s have 1: "strip_filter (PyStr ''  Alice Doe '') = Inr (PyStr ''Alice Doe'')"
    by simp
  from t1 s have 2: "run_filters MemberForm_name_filters (PyStr ''  Alice Doe '')
                       = Inr (PyStr ''Alice Doe'')"
    by simp
  from t1 n have 3: "strip_filter (PyInt 7) = Inr (PyInt 7)" by blast
  from t1 have 4: "strip_filter (PyStrippable 1 (Inr (PyStr ''Bob''))) = Inr (PyStr ''Bob'')"
    by blast
  from t2 x have 5: "strip_filter (PyStrippable 2 (Inl AttributeError))
                       = Inr (PyStrippable 2 (Inl AttributeError))"
    by blast
  from 1 2 3 4 5 show ?thesis by (intro conjI)
qed

subsection \<open>The amount and decimal fields\<close>

lemma replace_comma_append: "replace_comma (a @ b) = replace_comma a @ replace_comma b"
  by (simp add: replace_comma_def)

lemma replace_comma_separator:
  "replace_comma (a @ '','' @ b) = replace_comma (a @ ''.'' @ b)"
  by (simp add: replace_comma_def)

lemma amount_char_not_newline: "amount_char c \<Longrightarrow> c \<noteq> CHR 0x0A"
  by (auto simp: amount_char_def is_digit_def)

lemma match_amount_pattern_class:
  assumes "list_all amount_char value"
  shows "match_amount_pattern value = (length value \<le> 200)"
proof (cases "value = []")
  case True
  then show ?thesis by (simp add: match_amount_pattern_def)
next
  case False
  then have "last value \<in> set value" by simp
  with assms have "amount_char (last value)" by (simp add: list_all_iff)
  then have "last value \<noteq> CHR 0x0A" by (rule amount_char_not_newline)
  with assms show ?thesis by (simp add: match_amount_pattern_def)
qed


text \<open>
  C1. Whatever the evaluator returns for a submitted amount, the amount field stores its
  \<^verbatim>\<open>str\<close>, and \<^verbatim>\<open>validate_amount\<close> compares that string with the integer \<^verbatim>\<open>0\<close>: the
  two are never equal, so every amount that is processed without error passes
  \<^verbatim>\<open>validate_amount\<close>, one that evaluates to zero included. On a number the test does
  what it is there for: the integer \<^verbatim>\<open>0\<close> is refused.
\<close>

theorem validate_amount_accepts_processed_amount:
  "(CalculatorStringField_process_formdata eval_expr str_of (v # vs) data = Inr (valuelist', data')
      \<longrightarrow> BillForm_validate_amount data' = Inr ()) \<and>
   BillForm_validate_amount (PyInt 0) = Inl (ValidationError Bills_cant_be_null)"
proof -
  have "BillForm_validate_amount data' = Inr ()"
    if "CalculatorStringField_process_formdata eval_expr str_of (v # vs) data = Inr (valuelist', data')"
  proof -
    from that obtain n where "data' = PyStr (str_of n)"
      by (auto simp: CalculatorStringField_process_formdata_def StringField_process_formdata_def
            Let_def split: if_splits sum.splits)
    then show ?thesis by (simp add: BillForm_validate_amount_def)
  qed
  moreover have "BillForm_validate_amount (PyInt 0) = Inl (ValidationError Bills_cant_be_null)"
    by (simp add: BillForm_validate_amount_def py_eq_def)
  ultimately show ?thesis by blast
qed

text \<open>
  The submitted amount \<^verbatim>\<open>2-2\<close>, with an evaluator that returns the integer \<^verbatim>\<open>0\<close> for it:
  the field stores the string \<^verbatim>\<open>0\<close> and \<^verbatim>\<open>validate_amount\<close> accepts it.
\<close>

theorem validate_amount_accepts_processed_amount_witness:
  "CalculatorStringField_process_formdata
     (\<lambda>s. if s = ''2-2'' then Inr (0::int) else Inl (ValueError (Evaluator_message s)))
     str_int [''2-2''] PyNone = Inr ([''0''], PyStr ''0'') \<and>
   BillForm_validate_amount (PyStr ''0'') = Inr ()"
proof -
  let ?ev = "\<lambda>s. if s = ''2-2'' then Inr (0::int) else Inl (ValueError (Evaluator_message s))"
  have m: "match_amount_pattern ''2-2''"
    by (simp add: match_amount_pattern_def amount_char_def is_digit_def)
  have s: "str_int 0 = ''0''"
    by code_simp
  have h: "CalculatorStringField_process_formdata ?ev str_int [''2-2''] PyNone
             = Inr ([''0''], PyStr ''0'')"
    using m s
    by (simp add: CalculatorStringField_process_formdata_def StringField_process_formdata_def
          replace_comma_def)
  show ?thesis
    using validate_amount_accepts_processed_amount
            [of ?ev str_int "''2-2''" "[]" PyNone "[''0'']" "PyStr ''0''"] h
    by simp
qed


lemma process_formdata_evaluated:
  "match_amount_pattern (replace_comma v) \<Longrightarrow> \<not> has_double_star (replace_comma v) \<Longrightarrow>
   CalculatorStringField_process_formdata eval_expr str_of (v # vs) data
     = (case eval_expr (replace_comma v) of
          Inl e \<Rightarrow> Inl e
        | Inr n \<Rightarrow> Inr (str_of n # vs, PyStr (str_of n)))"
  by (simp add: CalculatorStringField_process_formdata_def StringField_process_formdata_def
        split: sum.splits)




text \<open>
  C6. A value written with a comma and the same value written with a period in its place
  give the same result, in the decimal field of the member weight and in the calculator
  field of the bill amount: the same list and the same outcome of the base class, the same
  stored data or the same error. \<^verbatim>\<open>1,5\<close> and \<^verbatim>\<open>1.5\<close> are one instance.
\<close>

theorem comma_and_period_agree:
  "CommaDecimalField_process_formdata super ((a @ '','' @ b) # vs)
     = CommaDecimalField_process_formdata super ((a @ ''.'' @ b) # vs) \<and>
   CalculatorStringField_process_formdata eval_expr str_of ((a @ '','' @ b) # vs) data
     = CalculatorStringField_process_formdata eval_expr str_of ((a @ ''.'' @ b) # vs) data \<and>
   CommaDecimalField_process_formdata super [''1,5'']
     = CommaDecimalField_process_formdata super [''1.5''] \<and>
   CalculatorStringField_process_formdata eval_expr str_of [''1,5''] data
     = CalculatorStringField_process_formdata eval_expr str_of [''1.5''] data"
proof -
  have r: "replace_comma (a @ '','' @ b) = replace_comma (a @ ''.'' @ b)"
    by (rule replace_comma_separator)
  have r15: "replace_comma ''1,5'' = replace_comma ''1.5''"
    by (simp add: replace_comma_def)
  show ?thesis
    unfolding CommaDecimalField_process_formdata_def CalculatorStringField_process_formdata_def
    by (simp only: list.case r r15)
qed

text \<open>
  An instance: with a base class that keeps the text it is given, and an evaluator that
  knows \<^verbatim>\<open>1.5\<close> as three halves, both spellings store the same.
\<close>

theorem comma_and_period_agree_witness:
  "CommaDecimalField_process_formdata (\<lambda>value. value) [''1,5''] = ([''1.5''], [''1.5'']) \<and>
   CommaDecimalField_process_formdata (\<lambda>value. value) [''1.5''] = ([''1.5''], [''1.5'']) \<and>
   CalculatorStringField_process_formdata
     (\<lambda>s. if s = ''1.5'' then Inr (3::int, 2::int) else Inl (ValueError (Evaluator_message s)))
     (\<lambda>(p, q). str_int p @ ''/'' @ str_int q) [''1,5''] PyNone
     = Inr ([''3/2''], PyStr ''3/2'') \<and>
   CalculatorStringField_process_formdata
     (\<lambda>s. if s = ''1.5'' then Inr (3::int, 2::int) else Inl (ValueError (Evaluator_message s)))
     (\<lambda>(p, q). str_int p @ ''/'' @ str_int q) [''1.5''] PyNone
     = Inr ([''3/2''], PyStr ''3/2'')"
proof -
  let ?ev = "\<lambda>s. if s = ''1.5'' then Inr (3::int, 2::int) else Inl (ValueError (Evaluator_message s))"
  let ?so = "\<lambda>(p, q). str_int p @ ''/'' @ str_int q"
  have s3: "str_int 3 = ''3''" by code_simp
  have s2: "str_int 2 = ''2''" by code_simp
  have m: "match_amount_pattern ''1.5''"
    by (simp add: match_amount_pattern_def amount_char_def is_digit_def)
  have d: "CommaDecimalField_process_formdata (\<lambda>value. value) [''1.5''] = ([''1.5''], [''1.5''])"
    by (simp add: CommaDecimalField_process_formdata_def replace_comma_def Let_def)
  have c: "CalculatorStringField_process_formdata ?ev ?so [''1.5''] PyNone
             = Inr ([''3/2''], PyStr ''3/2'')"
    using m s3 s2
    by (simp add: CalculatorStringField_process_formdata_def StringField_process_formdata_def
          replace_comma_def)
  show ?thesis
    using comma_and_period_agree [of "\<lambda>value. value" "''1''" "''5''" "[]" ?ev ?so PyNone] d c
    by simp
qed

subsection \<open>Projects and members\<close>

lemma Project_query_get_found:
  "(Project_query_get projects i \<noteq> None) = (\<exists>p \<in> set projects. project_id p = i)"
  by (auto simp: Project_query_get_def find_None_iff)

lemma Person_query_filter_nonempty:
  "(Person_query_filter persons name project \<noteq> []) =
   (\<exists>p \<in> set persons. PyStr (person_name p) = name \<and> person_project p = project \<and>
                        person_activated p)"
  by (auto simp: Person_query_filter_def filter_empty_conv)

lemma py_eq_str_none [simp]: "py_eq (PyStr s) PyNone = False"
  by (simp add: py_eq_def)

text \<open>
  C3. When the slug of the submitted identifier is \<^verbatim>\<open>dashboard\<close>, or is the id of a
  project in the store, \<^verbatim>\<open>validate_id\<close> raises a validation error that names the slug,
  whatever else the store holds; the slug has replaced the identifier in the form by then.
\<close>

theorem validate_id_rejects_taken:
  assumes "slugify (id_data form) = ''dashboard'' \<or>
           (\<exists>p \<in> set projects. project_id p = slugify (id_data form))"
  shows "ProjectForm_validate_id slugify projects form
           = (form\<lparr>id_data := slugify (id_data form)\<rparr>,
              Inl (ValidationError (Project_already_exists (slugify (id_data form)))))"
proof -
  from assms have "slugify (id_data form) = ''dashboard'' \<or>
                   Project_query_get projects (slugify (id_data form)) \<noteq> None"
    by (simp only: Project_query_get_found)
  then show ?thesis
    by (simp add: ProjectForm_validate_id_def Let_def)
qed

text \<open>
  Instances, with a slug function that writes a hyphen for every space: the reserved word,
  and an identifier whose slug is taken by the second project of the store.
\<close>

theorem validate_id_rejects_taken_witness:
  "snd (ProjectForm_validate_id (map (\<lambda>c. if c = CHR '' '' then CHR ''-'' else c)) []
         \<lparr> name_data = ''Trip'', password_data = ''pw'', contact_email_data = ''a@x.com'',
           project_history_data = False, ip_recording_data = False,
           default_currency_data = ''EUR'', id_data = ''dashboard'' \<rparr>)
     = Inl (ValidationError (Project_already_exists ''dashboard'')) \<and>
   snd (ProjectForm_validate_id (map (\<lambda>c. if c = CHR '' '' then CHR ''-'' else c))
         [\<lparr> project_id = ''flat'', project_name = ''Flat'', project_password = ''h1'',
            project_contact_email = ''b@y.com'', project_logging_preference = ENABLED,
            project_default_currency = ''EUR'' \<rparr>,
          \<lparr> project_id = ''ski-trip'', project_name = ''Ski'', project_password = ''h2'',
            project_contact_email = ''c@z.com'', project_logging_preference = DISABLED,
            project_default_currency = ''USD'' \<rparr>]
         \<lparr> name_data = ''Trip'', password_data = ''pw'', contact_email_data = ''a@x.com'',
           project_history_data = False, ip_recording_data = False,
           default_currency_data = ''EUR'', id_data = ''ski trip'' \<rparr>)
     = Inl (ValidationError (Project_already_exists ''ski-trip''))"
proof -
  let ?slug = "map (\<lambda>c. if c = CHR '' '' then CHR ''-'' else c)"
  let ?f1 = "\<lparr> name_data = ''Trip'', password_data = ''pw'', contact_email_data = ''a@x.com'',
           project_history_data = False, ip_recording_data = False,
           default_currency_data = ''EUR'', id_data = ''dashboard'' \<rparr>"
  let ?f2 = "\<lparr> name_data = ''Trip'', password_data = ''pw'', contact_email_data = ''a@x.com'',
           project_history_data = False, ip_recording_data = False,
           default_currency_data = ''EUR'', id_data = ''ski trip'' \<rparr>"
  let ?ps = "[\<lparr> project_id = ''flat'', project_name = ''Flat'', project_password = ''h1'',
            project_contact_email = ''b@y.com'', project_logging_preference = ENABLED,
            project_default_currency = ''EUR'' \<rparr>,
          \<lparr> project_id = ''ski-trip'', project_name = ''Ski'', project_password = ''h2'',
            project_contact_email = ''c@z.com'', project_logging_preference = DISABLED,
            project_default_currency = ''USD'' \<rparr>]"
  have h1: "?slug (id_data ?f1) = ''dashboard'' \<or>
            (\<exists>p \<in> set []. project_id p = ?slug (id_data ?f1))"
    by simp
  have h2: "?slug (id_data ?f2) = ''dashboard'' \<or>
            (\<exists>p \<in> set ?ps. project_id p = ?slug (id_data ?f2))"
    by simp
  show ?thesis
    using validate_id_rejects_taken [where slugify = ?slug and form = ?f1 and projects = "[]", OF h1]
      validate_id_rejects_taken [where slugify = ?slug and form = ?f2 and projects = ?ps, OF h2]
    by simp
qed

text \<open>
  C4. \<^verbatim>\<open>validate_name\<close> rejects a name equal to the default of the name field. Outside
  edit mode it rejects a name borne by an activated member of the form's project, and
  accepts a name whose bearers in that project are all deactivated. In edit mode the
  members are not consulted: every name other than the default is accepted, whatever the
  store holds, the edited member's own record included.
\<close>

theorem validate_name_cases:
  "(py_eq (member_name_data form) MemberForm_name_default
      \<longrightarrow> MemberForm_validate_name persons form = Inl (ValidationError User_name_incorrect)) \<and>
   (\<not> edit form \<and> member_name_data form = PyStr n \<and>
    (\<exists>p \<in> set persons. person_name p = n \<and> person_project p = member_project form \<and>
                         person_activated p)
      \<longrightarrow> MemberForm_validate_name persons form
            = Inl (ValidationError Project_already_has_member)) \<and>
   (\<not> edit form \<and> member_name_data form = PyStr n \<and>
    (\<forall>p \<in> set persons. person_name p = n \<and> person_project p = member_project form
                         \<longrightarrow> \<not> person_activated p)
      \<longrightarrow> MemberForm_validate_name persons form = Inr ()) \<and>
   (edit form \<and> \<not> py_eq (member_name_data form) MemberForm_name_default
      \<longrightarrow> MemberForm_validate_name persons form = Inr ())"
proof (intro conjI impI)
  assume "py_eq (member_name_data form) MemberForm_name_default"
  then show "MemberForm_validate_name persons form = Inl (ValidationError User_name_incorrect)"
    by (simp add: MemberForm_validate_name_def)
next
  assume a: "\<not> edit form \<and> member_name_data form = PyStr n \<and>
    (\<exists>p \<in> set persons. person_name p = n \<and> person_project p = member_project form \<and>
                         person_activated p)"
  then have "Person_query_filter persons (member_name_data form) (member_project form) \<noteq> []"
    by (simp add: Person_query_filter_nonempty)
  with a show "MemberForm_validate_name persons form
                 = Inl (ValidationError Project_already_has_member)"
    by (simp add: MemberForm_validate_name_def MemberForm_name_default_def)
next
  assume a: "\<not> edit form \<and> member_name_data form = PyStr n \<and>
    (\<forall>p \<in> set persons. person_name p = n \<and> person_project p = member_project form
                         \<longrightarrow> \<not> person_activated p)"
  then have "\<not> (Person_query_filter persons (member_name_data form) (member_project form) \<noteq> [])"
    unfolding Person_query_filter_nonempty by auto
  with a show "MemberForm_validate_name persons form = Inr ()"
    by (simp add: MemberForm_validate_name_def MemberForm_name_default_def)
next
  assume "edit form \<and> \<not> py_eq (member_name_data form) MemberForm_name_default"
  then show "MemberForm_validate_name persons form = Inr ()"
    by (simp add: MemberForm_validate_name_def)
qed

text \<open>
  Instances, in a store with an activated Alice and a deactivated Bob in project
  \<^verbatim>\<open>flat\<close>: no name is refused with \<^verbatim>\<open>None\<close> as data; adding Alice is refused; adding Bob
  is accepted; editing Alice is accepted.
\<close>

theorem validate_name_cases_witness:
  "MemberForm_validate_name
     [\<lparr> person_name = ''Alice'', person_project = ''flat'', person_activated = True \<rparr>,
      \<lparr> person_name = ''Bob'', person_project = ''flat'', person_activated = False \<rparr>]
     \<lparr> member_name_data = PyNone, member_project = ''flat'', edit = False \<rparr>
     = Inl (ValidationError User_name_incorrect) \<and>
   MemberForm_validate_name
     [\<lparr> person_name = ''Alice'', person_project = ''flat'', person_activated = True \<rparr>,
      \<lparr> person_name = ''Bob'', person_project = ''flat'', person_activated = False \<rparr>]
     \<lparr> member_name_data = PyStr ''Alice'', member_project = ''flat'', edit = False \<rparr>
     = Inl (ValidationError Project_already_has_member) \<and>
   MemberForm_validate_name
     [\<lparr> person_name = ''Alice'', person_project = ''flat'', person_activated = True \<rparr>,
      \<lparr> person_name = ''Bob'', person_project = ''flat'', person_activated = False \<rparr>]
     \<lparr> member_name_data = PyStr ''Bob'', member_project = ''flat'', edit = False \<rparr>
     = Inr () \<and>
   MemberForm_validate_name
     [\<lparr> person_name = ''Alice'', person_project = ''flat'', person_activated = True \<rparr>,
      \<lparr> person_name = ''Bob'', person_project = ''flat'', person_activated = False \<rparr>]
     \<lparr> member_name_data = PyStr ''Alice'', member_project = ''flat'', edit = True \<rparr>
     = Inr ()"
proof -
  let ?ps = "[\<lparr> person_name = ''Alice'', person_project = ''flat'', person_activated = True \<rparr>,
      \<lparr> person_name = ''Bob'', person_project = ''flat'', person_activated = False \<rparr>]"
  have 1: "MemberForm_validate_name ?ps
             \<lparr> member_name_data = PyNone, member_project = ''flat'', edit = False \<rparr>
             = Inl (ValidationError User_name_incorrect)"
    using validate_name_cases
            [of "\<lparr> member_name_data = PyNone, member_project = ''flat'', edit = False \<rparr>" ?ps]
    by (simp add: py_eq_def MemberForm_name_default_def)
  have 2: "MemberForm_validate_name ?ps
             \<lparr> member_name_data = PyStr ''Alice'', member_project = ''flat'', edit = False \<rparr>
             = Inl (ValidationError Project_already_has_member)"
    using validate_name_cases
            [of "\<lparr> member_name_data = PyStr ''Alice'', member_project = ''flat'', edit = False \<rparr>"
                ?ps "''Alice''"]
    by simp
  have 3: "MemberForm_validate_name ?ps
             \<lparr> member_name_data = PyStr ''Bob'', member_project = ''flat'', edit = False \<rparr>
             = Inr ()"
    using validate_name_cases
            [of "\<lparr> member_name_data = PyStr ''Bob'', member_project = ''flat'', edit = False \<rparr>"
                ?ps "''Bob''"]
    by simp
  have 4: "MemberForm_validate_name ?ps
             \<lparr> member_name_data = PyStr ''Alice'', member_project = ''flat'', edit = True \<rparr>
             = Inr ()"
    using validate_name_cases
            [of "\<lparr> member_name_data = PyStr ''Alice'', member_project = ''flat'', edit = True \<rparr>" ?ps]
    by (simp add: MemberForm_name_default_def)
  show ?thesis using 1 2 3 4 by blast
qed

text \<open>
  C5. Provided \<^verbatim>\<open>switch_currency\<close> leaves the password of a project alone: when the
  submitted private code verifies against the stored hash, the hash after \<^verbatim>\<open>update\<close> is
  the hash before it; when it does not verify, the hash after \<^verbatim>\<open>update\<close> is the newly
  generated hash of the submitted code. So the hash is replaced only when verification
  fails.
\<close>

theorem update_rehashes_only_on_mismatch:
  assumes "\<forall>c p. project_password (fst (switch_currency c p)) = project_password p"
  shows "(check_password_hash (project_password project) (password_data self)
            \<longrightarrow> project_password (fst (EditProjectForm_update check_password_hash
                    generate_password_hash switch_currency self project))
                  = project_password project) \<and>
         (\<not> check_password_hash (project_password project) (password_data self)
            \<longrightarrow> project_password (fst (EditProjectForm_update check_password_hash
                    generate_password_hash switch_currency self project))
                  = generate_password_hash (password_data self)) \<and>
         (project_password (fst (EditProjectForm_update check_password_hash
                    generate_password_hash switch_currency self project))
            \<noteq> project_password project
            \<longrightarrow> \<not> check_password_hash (project_password project) (password_data self))"
  using assms by (simp add: EditProjectForm_update_def Let_def)

text \<open>
  Instances, with a hash that writes the salt \<^verbatim>\<open>s2$\<close> before the code, a check that
  compares the text after the third character, and a \<^verbatim>\<open>switch_currency\<close> that sets the
  default currency: the stored hash \<^verbatim>\<open>s1$tea\<close> survives the code \<^verbatim>\<open>tea\<close>, and is replaced
  by \<^verbatim>\<open>s2$milk\<close> on the code \<^verbatim>\<open>milk\<close>.
\<close>

theorem update_rehashes_only_on_mismatch_witness:
  "project_password (fst (EditProjectForm_update (\<lambda>h pw. drop 3 h = pw) (\<lambda>pw. ''s2$'' @ pw)
       (\<lambda>c p. (p\<lparr>project_default_currency := c\<rparr>, None))
       \<lparr> name_data = ''Flat'', password_data = ''tea'', contact_email_data = ''a@x.com'',
         project_history_data = True, ip_recording_data = False,
         default_currency_data = ''USD'' \<rparr>
       \<lparr> project_id = ''flat'', project_name = ''Old'', project_password = ''s1$tea'',
         project_contact_email = ''b@y.com'', project_logging_preference = DISABLED,
         project_default_currency = ''EUR'' \<rparr>)) = ''s1$tea'' \<and>
   project_password (fst (EditProjectForm_update (\<lambda>h pw. drop 3 h = pw) (\<lambda>pw. ''s2$'' @ pw)
       (\<lambda>c p. (p\<lparr>project_default_currency := c\<rparr>, None))
       \<lparr> name_data = ''Flat'', password_data = ''milk'', contact_email_data = ''a@x.com'',
         project_history_data = True, ip_recording_data = False,
         default_currency_data = ''USD'' \<rparr>
       \<lparr> project_id = ''flat'', project_name = ''Old'', project_password = ''s1$tea'',
         project_contact_email = ''b@y.com'', project_logging_preference = DISABLED,
         project_default_currency = ''EUR'' \<rparr>)) = ''s2$milk''"
proof -
  let ?chk = "\<lambda>h pw. drop 3 h = (pw :: string)"
  let ?gen = "\<lambda>pw. ''s2$'' @ pw"
  let ?sc = "\<lambda>c p. (p\<lparr>project_default_currency := c\<rparr>, None :: exn option)"
  let ?p = "\<lparr> project_id = ''flat'', project_name = ''Old'', project_password = ''s1$tea'',
         project_contact_email = ''b@y.com'', project_logging_preference = DISABLED,
         project_default_currency = ''EUR'' \<rparr>"
  let ?f1 = "\<lparr> name_data = ''Flat'', password_data = ''tea'', contact_email_data = ''a@x.com'',
         project_history_data = True, ip_recording_data = False,
         default_currency_data = ''USD'' \<rparr>"
  let ?f2 = "\<lparr> name_data = ''Flat'', password_data = ''milk'', contact_email_data = ''a@x.com'',
         project_history_data = True, ip_recording_data = False,
         default_currency_data = ''USD'' \<rparr>"
  have frame: "\<forall>c p. project_password (fst (?sc c p)) = project_password p"
    by simp
  have ok: "?chk (project_password ?p) (password_data ?f1)" by simp
  have ko: "\<not> ?chk (project_password ?p) (password_data ?f2)" by simp
  from update_rehashes_only_on_mismatch
         [where switch_currency = ?sc and check_password_hash = ?chk and
                generate_password_hash = ?gen and self = ?f1 and project = ?p, OF frame] ok
  have 1: "project_password (fst (EditProjectForm_update ?chk ?gen ?sc ?f1 ?p))
             = project_password ?p"
    by blast
  from update_rehashes_only_on_mismatch
         [where switch_currency = ?sc and check_password_hash = ?chk and
                generate_password_hash = ?gen and self = ?f2 and project = ?p, OF frame] ko
  have 2: "project_password (fst (EditProjectForm_update ?chk ?gen ?sc ?f2 ?p))
             = ?gen (password_data ?f2)"
    by blast
  from 1 2 show ?thesis by simp
qed

text \<open>
  C8, as stated, fails on the creation path. \<^verbatim>\<open>ProjectForm.save\<close> overwrites both
  toggles from \<^verbatim>\<open>LoggingMode.default()\<close> before it reads them, so the submitted toggles
  do not select the preference of the created project: whatever the default is, some
  submission gets another preference than its toggles name.
\<close>

theorem creation_preference_counterexample:
  "\<not> (\<exists>default_mode. \<forall>generate_password_hash self.
        (\<not> project_history_data self
           \<longrightarrow> project_logging_preference
                 (snd (ProjectForm_save default_mode generate_password_hash self)) = DISABLED) \<and>
        (project_history_data self \<and> \<not> ip_recording_data self
           \<longrightarrow> project_logging_preference
                 (snd (ProjectForm_save default_mode generate_password_hash self)) = ENABLED) \<and>
        (project_history_data self \<and> ip_recording_data self
           \<longrightarrow> project_logging_preference
                 (snd (ProjectForm_save default_mode generate_password_hash self)) = RECORD_IP))"
proof
  let ?off = "\<lparr> name_data = ''Flat'', password_data = ''tea'', contact_email_data = ''a@x.com'',
         project_history_data = False, ip_recording_data = False,
         default_currency_data = ''EUR'', id_data = ''flat'' \<rparr>"
  let ?on = "\<lparr> name_data = ''Flat'', password_data = ''tea'', contact_email_data = ''a@x.com'',
         project_history_data = True, ip_recording_data = False,
         default_currency_data = ''EUR'', id_data = ''flat'' \<rparr>"
  assume "\<exists>default_mode. \<forall>generate_password_hash self.
        (\<not> project_history_data self
           \<longrightarrow> project_logging_preference
                 (snd (ProjectForm_save default_mode generate_password_hash self)) = DISABLED) \<and>
        (project_history_data self \<and> \<not> ip_recording_data self
           \<longrightarrow> project_logging_preference
                 (snd (ProjectForm_save default_mode generate_password_hash self)) = ENABLED) \<and>
        (project_history_data self \<and> ip_recording_data self
           \<longrightarrow> project_logging_preference
                 (snd (ProjectForm_save default_mode generate_password_hash self)) = RECORD_IP)"
  then obtain d where d: "\<forall>generate_password_hash self.
        (\<not> project_history_data self
           \<longrightarrow> project_logging_preference
                 (snd (ProjectForm_save d generate_password_hash self)) = DISABLED) \<and>
        (project_history_data self \<and> \<not> ip_recording_data self
           \<longrightarrow> project_logging_preference
                 (snd (ProjectForm_save d generate_password_hash self)) = ENABLED) \<and>
        (project_history_data self \<and> ip_recording_data self
           \<longrightarrow> project_logging_preference
                 (snd (ProjectForm_save d generate_password_hash self)) = RECORD_IP)"
    by (rule exE)
  have h_off: "\<not> project_history_data ?off" by simp
  have h_on: "project_history_data ?on \<and> \<not> ip_recording_data ?on" by simp
  from d [THEN spec [where x = "\<lambda>pw. pw"], THEN spec [where x = ?off]] h_off
  have off: "project_logging_preference (snd (ProjectForm_save d (\<lambda>pw. pw) ?off)) = DISABLED"
    by blast
  from d [THEN spec [where x = "\<lambda>pw. pw"], THEN spec [where x = ?on]] h_on
  have on: "project_logging_preference (snd (ProjectForm_save d (\<lambda>pw. pw) ?on)) = ENABLED"
    by blast
  from off have "d = DISABLED"
    by (cases d) (simp_all add: ProjectForm_save_def EditProjectForm_save_def
                    logging_preference_def Let_def)
  moreover from on have "d = ENABLED"
    by (cases d) (simp_all add: ProjectForm_save_def EditProjectForm_save_def
                    logging_preference_def Let_def)
  ultimately show False by simp
qed

text \<open>
  C8, amended. The property \<^verbatim>\<open>logging_preference\<close> selects the preference by the two
  toggles: history off gives \<^verbatim>\<open>DISABLED\<close>, history on without IP recording gives
  \<^verbatim>\<open>ENABLED\<close>, history on with IP recording gives \<^verbatim>\<open>RECORD_IP\<close>. On the update path the
  project gets the preference the submitted toggles select (provided \<^verbatim>\<open>switch_currency\<close>
  leaves the preference alone). On the creation path the project gets
  \<^verbatim>\<open>LoggingMode.default()\<close>, whatever toggles were submitted.
\<close>

theorem logging_preference_on_both_paths:
  "(\<not> project_history_data self \<longrightarrow> logging_preference self = DISABLED) \<and>
   (project_history_data self \<and> \<not> ip_recording_data self
      \<longrightarrow> logging_preference self = ENABLED) \<and>
   (project_history_data self \<and> ip_recording_data self
      \<longrightarrow> logging_preference self = RECORD_IP) \<and>
   ((\<forall>c p. project_logging_preference (fst (switch_currency c p))
              = project_logging_preference p)
      \<longrightarrow> project_logging_preference (fst (EditProjectForm_update check_password_hash
              generate_password_hash switch_currency self project))
            = logging_preference self) \<and>
   project_logging_preference (snd (ProjectForm_save default_mode generate_password_hash form))
     = default_mode"
proof -
  have "project_logging_preference (snd (ProjectForm_save default_mode generate_password_hash form))
          = default_mode"
    by (cases default_mode)
       (simp_all add: ProjectForm_save_def EditProjectForm_save_def logging_preference_def Let_def)
  then show ?thesis
    by (simp add: logging_preference_def EditProjectForm_update_def Let_def)
qed

text \<open>
  Instances: an update with history on and IP recording on stores \<^verbatim>\<open>RECORD_IP\<close>; a
  creation with both toggles off, under the default \<^verbatim>\<open>ENABLED\<close>, stores \<^verbatim>\<open>ENABLED\<close>.
\<close>

theorem logging_preference_on_both_paths_witness:
  "project_logging_preference (fst (EditProjectForm_update (\<lambda>h pw. drop 3 h = pw)
       (\<lambda>pw. ''s2$'' @ pw) (\<lambda>c p. (p\<lparr>project_default_currency := c\<rparr>, None))
       \<lparr> name_data = ''Flat'', password_data = ''tea'', contact_email_data = ''a@x.com'',
         project_history_data = True, ip_recording_data = True,
         default_currency_data = ''USD'' \<rparr>
       \<lparr> project_id = ''flat'', project_name = ''Old'', project_password = ''s1$tea'',
         project_contact_email = ''b@y.com'', project_logging_preference = DISABLED,
         project_default_currency = ''EUR'' \<rparr>)) = RECORD_IP \<and>
   project_logging_preference (snd (ProjectForm_save ENABLED (\<lambda>pw. ''s2$'' @ pw)
       \<lparr> name_data = ''Flat'', password_data = ''tea'', contact_email_data = ''a@x.com'',
         project_history_data = False, ip_recording_data = False,
         default_currency_data = ''EUR'', id_data = ''flat'' \<rparr>)) = ENABLED"
proof -
  let ?chk = "\<lambda>h pw. drop 3 h = (pw :: string)"
  let ?gen = "\<lambda>pw. ''s2$'' @ pw"
  let ?sc = "\<lambda>c p. (p\<lparr>project_default_currency := c\<rparr>, None :: exn option)"
  let ?p = "\<lparr> project_id = ''flat'', project_name = ''Old'', project_password = ''s1$tea'',
         project_contact_email = ''b@y.com'', project_logging_preference = DISABLED,
         project_default_currency = ''EUR'' \<rparr>"
  let ?f = "\<lparr> name_data = ''Flat'', password_data = ''tea'', contact_email_data = ''a@x.com'',
         project_history_data = True, ip_recording_data = True,
         default_currency_data = ''USD'' \<rparr>"
  let ?g = "\<lparr> name_data = ''Flat'', password_data = ''tea'', contact_email_data = ''a@x.com'',
         project_history_data = False, ip_recording_data = False,
         default_currency_data = ''EUR'', id_data = ''flat'' \<rparr>"
  have frame: "\<forall>c p. project_logging_preference (fst (?sc c p)) = project_logging_preference p"
    by simp
  have tog: "project_history_data ?f \<and> ip_recording_data ?f" by simp
  note t = logging_preference_on_both_paths
         [where self = ?f and switch_currency = ?sc and check_password_hash = ?chk and
                generate_password_hash = ?gen and project = ?p and default_mode = ENABLED and
                form = ?g]
  from t tog have a: "logging_preference ?f = RECORD_IP" by blast
  from t frame have b: "project_logging_preference (fst (EditProjectForm_update ?chk ?gen ?sc ?f ?p))
                          = logging_preference ?f"
    by blast
  from t have c: "project_logging_preference (snd (ProjectForm_save ENABLED ?gen ?g)) = ENABLED"
    by blast
  from a b c show ?thesis by simp
qed

subsection \<open>Invitations\<close>

lemma validate_each_all_valid:
  "list_all valid emails \<Longrightarrow> validate_each valid emails = Inr ()"
  by (induction emails) simp_all

lemma validate_each_first_invalid:
  "list_all valid pre \<Longrightarrow> \<not> valid e \<Longrightarrow>
   validate_each valid (pre @ e # post) = Inl (ValidationError (Email_not_valid e))"
  by (induction pre) simp_all

lemma split_three:
  "map py_strip (split_comma ''a@x.com, not-an-email, b@y.com'')
     = [''a@x.com'', ''not-an-email'', ''b@y.com'']"
  by (simp add: py_strip_def is_space_def)

text \<open>
  C7. The addresses of an invitation are the pieces between the commas, each stripped of
  its surrounding whitespace, and they are validated one by one in that order: when all
  are valid the validation succeeds; when an address is invalid and all before it are
  valid, the validation fails with the error that names this first invalid address. For
  \<^verbatim>\<open>a@x.com, not-an-email, b@y.com\<close>, with a validator that accepts \<^verbatim>\<open>a@x.com\<close> and refuses
  \<^verbatim>\<open>not-an-email\<close>, the error names \<^verbatim>\<open>not-an-email\<close>.
\<close>

theorem validate_emails_first_invalid:
  "(list_all valid (map py_strip (split_comma emails_data))
      \<longrightarrow> InviteForm_validate_emails valid emails_data = Inr ()) \<and>
   (map py_strip (split_comma emails_data) = pre @ e # post \<and> list_all valid pre \<and> \<not> valid e
      \<longrightarrow> InviteForm_validate_emails valid emails_data
            = Inl (ValidationError (Email_not_valid e))) \<and>
   (valid ''a@x.com'' \<and> \<not> valid ''not-an-email''
      \<longrightarrow> InviteForm_validate_emails valid ''a@x.com, not-an-email, b@y.com''
            = Inl (ValidationError (Email_not_valid ''not-an-email'')))"
proof (intro conjI impI)
  assume "list_all valid (map py_strip (split_comma emails_data))"
  then show "InviteForm_validate_emails valid emails_data = Inr ()"
    unfolding InviteForm_validate_emails_def by (rule validate_each_all_valid)
next
  assume "map py_strip (split_comma emails_data) = pre @ e # post \<and> list_all valid pre \<and>
          \<not> valid e"
  then show "InviteForm_validate_emails valid emails_data
               = Inl (ValidationError (Email_not_valid e))"
    by (simp add: InviteForm_validate_emails_def validate_each_first_invalid)
next
  assume a: "valid ''a@x.com'' \<and> \<not> valid ''not-an-email''"
  have "validate_each valid ([''a@x.com''] @ ''not-an-email'' # [''b@y.com''])
          = Inl (ValidationError (Email_not_valid ''not-an-email''))"
    using a by (intro validate_each_first_invalid) simp_all
  then show "InviteForm_validate_emails valid ''a@x.com, not-an-email, b@y.com''
               = Inl (ValidationError (Email_not_valid ''not-an-email''))"
    unfolding InviteForm_validate_emails_def split_three by simp
qed

text \<open>
  Instances, with a validator that asks for an \<^verbatim>\<open>@\<close> in the address: the list of the claim
  fails on \<^verbatim>\<open>not-an-email\<close>, a list of two good addresses passes.
\<close>

theorem validate_emails_first_invalid_witness:
  "InviteForm_validate_emails (\<lambda>s. CHR ''@'' \<in> set s) ''a@x.com, not-an-email, b@y.com''
     = Inl (ValidationError (Email_not_valid ''not-an-email'')) \<and>
   InviteForm_validate_emails (\<lambda>s. CHR ''@'' \<in> set s) ''a@x.com ,b@y.com'' = Inr ()"
proof -
  let ?valid = "\<lambda>s. CHR ''@'' \<in> set s"
  have v: "?valid ''a@x.com'' \<and> \<not> ?valid ''not-an-email''" by simp
  have two: "list_all ?valid (map py_strip (split_comma ''a@x.com ,b@y.com''))"
    by (simp add: py_strip_def is_space_def)
  from validate_emails_first_invalid [where valid = ?valid] v
  have 1: "InviteForm_validate_emails ?valid ''a@x.com, not-an-email, b@y.com''
             = Inl (ValidationError (Email_not_valid ''not-an-email''))"
    by blast
  from validate_emails_first_invalid
         [where valid = ?valid and emails_data = "''a@x.com ,b@y.com''"] two
  have 2: "InviteForm_validate_emails ?valid ''a@x.com ,b@y.com'' = Inr ()"
    by blast
  from 1 2 show ?thesis by simp
qed

text \<open>
  C10. The empty string splits into one address, the empty one, and stripping leaves it
  empty; the validation of an invitation with no recipients is then the validator's
  verdict on the empty address, and with a validator that refuses it the validation
  fails, naming the empty address.
\<close>

theorem empty_invitation_fails:
  "split_comma [] = [[]] \<and>
   map py_strip (split_comma []) = [[]] \<and>
   (InviteForm_validate_emails valid [] = Inr ()) = valid [] \<and>
   (\<not> valid [] \<longrightarrow>
      InviteForm_validate_emails valid [] = Inl (ValidationError (Email_not_valid [])))"
  by (simp add: InviteForm_validate_emails_def py_strip_def)

text \<open>An instance, with the validator that asks for an \<^verbatim>\<open>@\<close> in the address.\<close>

theorem empty_invitation_fails_witness:
  "InviteForm_validate_emails (\<lambda>s. CHR ''@'' \<in> set s) []
     = Inl (ValidationError (Email_not_valid []))"
proof -
  have "\<not> (\<lambda>s. CHR ''@'' \<in> set s) []" by simp
  with empty_invitation_fails [where valid = "\<lambda>s. CHR ''@'' \<in> set s"]
  show ?thesis by blast
qed

section \<open>Further properties\<close>

text \<open>
  The amount pattern, position by position: the pattern matches when some \<open>k \<le> 200\<close>
  leading characters are of the class and \<^verbatim>\<open>$\<close> holds after them, that is at the end of
  the string or before a newline that is its last character.
\<close>

lemma match_amount_pattern_positions:
  "match_amount_pattern value =
     (\<exists>k. k \<le> 200 \<and> k \<le> length value \<and> list_all amount_char (take k value) \<and>
          (k = length value \<or> (Suc k = length value \<and> value ! k = CHR 0x0A)))"
proof
  assume m: "match_amount_pattern value"
  show "\<exists>k. k \<le> 200 \<and> k \<le> length value \<and> list_all amount_char (take k value) \<and>
          (k = length value \<or> (Suc k = length value \<and> value ! k = CHR 0x0A))"
  proof (cases "value \<noteq> [] \<and> last value = CHR 0x0A")
    case True
    with m have b: "length (butlast value) \<le> 200 \<and> list_all amount_char (butlast value)"
      by (simp add: match_amount_pattern_def)
    let ?k = "length value - 1"
    have "take ?k value = butlast value" by (simp add: butlast_conv_take)
    moreover have "Suc ?k = length value" using True by simp
    moreover have "value ! ?k = CHR 0x0A" using True last_conv_nth [of "value"] by auto
    ultimately show ?thesis using b by (intro exI [of _ ?k]) simp
  next
    case False
    with m have "length value \<le> 200 \<and> list_all amount_char value"
      by (auto simp: match_amount_pattern_def)
    then show ?thesis by (intro exI [of _ "length value"]) simp
  qed
next
  assume "\<exists>k. k \<le> 200 \<and> k \<le> length value \<and> list_all amount_char (take k value) \<and>
          (k = length value \<or> (Suc k = length value \<and> value ! k = CHR 0x0A))"
  then obtain k where k: "k \<le> 200" "k \<le> length value" "list_all amount_char (take k value)"
    and e: "k = length value \<or> (Suc k = length value \<and> value ! k = CHR 0x0A)"
    by blast
  from e show "match_amount_pattern value"
  proof
    assume "k = length value"
    with k show ?thesis by (simp add: match_amount_pattern_class)
  next
    assume s: "Suc k = length value \<and> value ! k = CHR 0x0A"
    then have len: "length value = Suc k" by auto
    then have ne: "value \<noteq> []" by auto
    then have lv: "last value = value ! (length value - 1)" by (rule last_conv_nth)
    from s have nl: "value ! k = CHR 0x0A" by (rule conjunct2)
    from len have "length value - 1 = k" by simp
    with lv nl have l: "last value = CHR 0x0A" by simp
    from len have "butlast value = take k value"
      by (simp add: butlast_conv_take)
    with k ne l show ?thesis by (simp add: match_amount_pattern_def)
  qed
qed

lemma has_double_star_snoc:
  "c \<noteq> CHR ''*'' \<Longrightarrow> has_double_star (w @ [c]) = has_double_star w"
  by (induction w rule: has_double_star.induct) auto

lemma replace_comma_amount_chars:
  "list_all amount_char w \<Longrightarrow> replace_comma w = w"
  by (induction w) (auto simp: replace_comma_def amount_char_def is_digit_def)

text \<open>
  X1. A string of at most 200 characters of the class, without \<^verbatim>\<open>**\<close>, that is followed
  by one final newline passes the pattern: the field hands it, newline included, to the
  evaluator and stores what the evaluator makes of it.
\<close>

theorem final_newline_reaches_evaluator:
  assumes "list_all amount_char w" and "length w \<le> 200" and "\<not> has_double_star w"
  shows "CalculatorStringField_process_formdata eval_expr str_of ((w @ [CHR 0x0A]) # vs) data
           = (case eval_expr (w @ [CHR 0x0A]) of
                Inl e \<Rightarrow> Inl e
              | Inr n \<Rightarrow> Inr (str_of n # vs, PyStr (str_of n)))"
proof -
  have r: "replace_comma (w @ [CHR 0x0A]) = w @ [CHR 0x0A]"
    using assms(1) by (simp add: replace_comma_append replace_comma_amount_chars)
       (simp add: replace_comma_def)
  have m: "match_amount_pattern (w @ [CHR 0x0A])"
    using assms(1,2) by (simp add: match_amount_pattern_def)
  have s: "\<not> has_double_star (w @ [CHR 0x0A])"
    using assms(3) by (simp add: has_double_star_snoc)
  from m s show ?thesis
    using process_formdata_evaluated [of "w @ [CHR 0x0A]" eval_expr str_of vs data]
    by (simp only: r) simp
qed

text \<open>
  An instance: \<^verbatim>\<open>7\<close> followed by a newline, with an evaluator that knows it as \<^verbatim>\<open>7\<close>.
\<close>

theorem final_newline_reaches_evaluator_witness:
  "CalculatorStringField_process_formdata
     (\<lambda>s. if s = [CHR ''7'', CHR 0x0A] then Inr (7::int)
          else Inl (ValueError (Evaluator_message s)))
     str_int [[CHR ''7'', CHR 0x0A]] PyNone = Inr ([''7''], PyStr ''7'')"
proof -
  have s: "str_int 7 = ''7''" by code_simp
  have a: "list_all amount_char ''7''" by (simp add: amount_char_def is_digit_def)
  have b: "length ''7'' \<le> 200" by simp
  have c: "\<not> has_double_star ''7''" by simp
  show ?thesis
    using final_newline_reaches_evaluator
            [OF a b c, of "\<lambda>s. if s = [CHR ''7'', CHR 0x0A] then Inr (7::int)
                              else Inl (ValueError (Evaluator_message s))" str_int "[]" PyNone] s
    by simp
qed

text \<open>
  X2. \<^verbatim>\<open>validate_id\<close> accepts every other identifier: when the slug is not
  \<^verbatim>\<open>dashboard\<close> and no project of the store has it as id, no error is raised, and the form
  holds the slug.
\<close>

theorem validate_id_accepts_fresh:
  assumes "slugify (id_data form) \<noteq> ''dashboard''"
      and "\<forall>p \<in> set projects. project_id p \<noteq> slugify (id_data form)"
  shows "ProjectForm_validate_id slugify projects form
           = (form\<lparr>id_data := slugify (id_data form)\<rparr>, Inr ())"
proof -
  from assms(2) have "Project_query_get projects (slugify (id_data form)) = None"
    using Project_query_get_found [of projects "slugify (id_data form)"] by blast
  with assms(1) show ?thesis
    by (simp add: ProjectForm_validate_id_def Let_def)
qed

text \<open>An instance, with the slug function that writes a hyphen for every space.\<close>

theorem validate_id_accepts_fresh_witness:
  "ProjectForm_validate_id (map (\<lambda>c. if c = CHR '' '' then CHR ''-'' else c))
     [\<lparr> project_id = ''flat'', project_name = ''Flat'', project_password = ''h1'',
        project_contact_email = ''b@y.com'', project_logging_preference = ENABLED,
        project_default_currency = ''EUR'' \<rparr>]
     \<lparr> name_data = ''Trip'', password_data = ''pw'', contact_email_data = ''a@x.com'',
       project_history_data = False, ip_recording_data = False,
       default_currency_data = ''EUR'', id_data = ''ski trip'' \<rparr>
   = (\<lparr> name_data = ''Trip'', password_data = ''pw'', contact_email_data = ''a@x.com'',
        project_history_data = False, ip_recording_data = False,
        default_currency_data = ''EUR'', id_data = ''ski-trip'' \<rparr>, Inr ())"
proof -
  let ?slug = "map (\<lambda>c. if c = CHR '' '' then CHR ''-'' else c)"
  let ?ps = "[\<lparr> project_id = ''flat'', project_name = ''Flat'', project_password = ''h1'',
        project_contact_email = ''b@y.com'', project_logging_preference = ENABLED,
        project_default_currency = ''EUR'' \<rparr>]"
  let ?f = "\<lparr> name_data = ''Trip'', password_data = ''pw'', contact_email_data = ''a@x.com'',
       project_history_data = False, ip_recording_data = False,
       default_currency_data = ''EUR'', id_data = ''ski trip'' \<rparr>"
  have a: "?slug (id_data ?f) \<noteq> ''dashboard''" by simp
  have b: "\<forall>p \<in> set ?ps. project_id p \<noteq> ?slug (id_data ?f)" by simp
  show ?thesis
    using validate_id_accepts_fresh
            [where slugify = ?slug and form = ?f and projects = ?ps, OF a b]
    by simp
qed

end
